theory Spec2Isabelle
  imports Main
begin

section \<open>Python values\<close>

text \<open>
  A Python \<open>str\<close> is a sequence of Unicode code points, and \<open>len\<close> counts code points.
  Code points are natural numbers here; \<open>lit\<close> turns an ASCII literal of the source into
  its code points.
\<close>

type_synonym codepoint = nat
type_synonym pystr = "codepoint list"

definition lit :: "string \<Rightarrow> pystr" where
  "lit s = map of_char s"

text \<open>
  The values \<open>response.json()\<close> can return, which are also the values the functions of
  \<open>geoloc_util.py\<close> pass around. A dictionary is the list of its items in insertion order
  (keys of a JSON object are strings; lookup takes the first item with the key).
  The program never computes with a \<open>float\<close>: it tests its truth value and renders it
  with \<open>str\<close>, so a float is represented by these two observations
  (\<open>PFloat nonzero rendering\<close>).
\<close>

datatype pyval =
    PNone
  | PBool bool
  | PInt int
  | PFloat bool pystr
  | PStr pystr
  | PList "pyval list"
  | PDict "(pystr \<times> pyval) list"

text \<open>Truth value testing (\<open>not data\<close>, \<open>if result.get("state")\<close>).\<close>

fun truthy :: "pyval \<Rightarrow> bool" where
  "truthy PNone = False"
| "truthy (PBool b) = b"
| "truthy (PInt i) = (i \<noteq> 0)"
| "truthy (PFloat nonzero s) = nonzero"
| "truthy (PStr s) = (s \<noteq> [])"
| "truthy (PList xs) = (xs \<noteq> [])"
| "truthy (PDict kvs) = (kvs \<noteq> [])"

text \<open>\<open>str\<close> of an \<open>int\<close>: decimal digits, a minus sign for a negative number.\<close>

function str_nat :: "nat \<Rightarrow> pystr" where
  "str_nat n = (if n < 10 then [48 + n] else str_nat (n div 10) @ [48 + n mod 10])"
  by pat_completeness auto
termination
  by (relation "measure id") auto

definition str_int :: "int \<Rightarrow> pystr" where
  "str_int i = (if i < 0 then 45 # str_nat (nat (- i)) else str_nat (nat i))"

text \<open>
  What a replacement field of an f-string and \<open>print\<close> make of a value: \<open>str(v)\<close>.
  For a list or a dictionary \<open>str\<close> is \<open>repr\<close>, which quotes and escapes the strings
  inside by the Unicode database; it is the parameter \<open>repr\<close>.
\<close>

fun py_str :: "(pyval \<Rightarrow> pystr) \<Rightarrow> pyval \<Rightarrow> pystr" where
  "py_str repr PNone = lit ''None''"
| "py_str repr (PBool b) = (if b then lit ''True'' else lit ''False'')"
| "py_str repr (PInt i) = str_int i"
| "py_str repr (PFloat nonzero s) = s"
| "py_str repr (PStr s) = s"
| "py_str repr (PList xs) = repr (PList xs)"
| "py_str repr (PDict kvs) = repr (PDict kvs)"

subsection \<open>String methods\<close>

text \<open>
  \<open>str.strip()\<close> removes the characters for which \<open>str.isspace\<close> holds, and
  \<open>str.isdigit()\<close> tests the Unicode property Numeric_Type = Digit or Decimal. The
  tables are those of the Unicode Character Database 14.0.0 (CPython 3.11), as inclusive
  ranges of code points.
\<close>

definition in_ranges :: "(nat \<times> nat) list \<Rightarrow> codepoint \<Rightarrow> bool" where
  "in_ranges rs c = list_ex (\<lambda>(lo, hi). lo \<le> c \<and> c \<le> hi) rs"

definition whitespace_ranges :: "(nat \<times> nat) list" where
  "whitespace_ranges =
    [(9, 13), (28, 32), (133, 133), (160, 160), (5760, 5760), (8192, 8202), (8232, 8233),
     (8239, 8239), (8287, 8287), (12288, 12288)]"

definition digit_ranges :: "(nat \<times> nat) list" where
  "digit_ranges =
    [(48, 57), (178, 179), (185, 185), (1632, 1641), (1776, 1785), (1984, 1993),
     (2406, 2415), (2534, 2543), (2662, 2671), (2790, 2799), (2918, 2927), (3046, 3055),
     (3174, 3183), (3302, 3311), (3430, 3439), (3558, 3567), (3664, 3673), (3792, 3801),
     (3872, 3881), (4160, 4169), (4240, 4249), (4969, 4977), (6112, 6121), (6160, 6169),
     (6470, 6479), (6608, 6618), (6784, 6793), (6800, 6809), (6992, 7001), (7088, 7097),
     (7232, 7241), (7248, 7257), (8304, 8304), (8308, 8313), (8320, 8329), (9312, 9320),
     (9332, 9340), (9352, 9360), (9450, 9450), (9461, 9469), (9471, 9471), (10102, 10110),
     (10112, 10120), (10122, 10130), (42528, 42537), (43216, 43225), (43264, 43273),
     (43472, 43481), (43504, 43513), (43600, 43609), (44016, 44025), (65296, 65305),
     (66720, 66729), (68160, 68163), (68912, 68921), (69216, 69224), (69714, 69722),
     (69734, 69743), (69872, 69881), (69942, 69951), (70096, 70105), (70384, 70393),
     (70736, 70745), (70864, 70873), (71248, 71257), (71360, 71369), (71472, 71481),
     (71904, 71913), (72016, 72025), (72784, 72793), (73040, 73049), (73120, 73129),
     (92768, 92777), (92864, 92873), (93008, 93017), (120782, 120831), (123200, 123209),
     (123632, 123641), (125264, 125273), (127232, 127242), (130032, 130041)]"

definition isspace :: "codepoint \<Rightarrow> bool" where
  "isspace c = in_ranges whitespace_ranges c"

definition isdigit :: "codepoint \<Rightarrow> bool" where
  "isdigit c = in_ranges digit_ranges c"

definition strip :: "pystr \<Rightarrow> pystr" where
  "strip s = rev (dropWhile isspace (rev (dropWhile isspace s)))"

text \<open>\<open>s.isdigit()\<close>: every character is a digit and there is at least one.\<close>

definition str_isdigit :: "pystr \<Rightarrow> bool" where
  "str_isdigit s = (s \<noteq> [] \<and> list_all isdigit s)"

text \<open>The decimal digits \<open>0\<close> to \<open>9\<close> of a US zip code.\<close>

definition decimal_digit :: "codepoint \<Rightarrow> bool" where
  "decimal_digit c = (48 \<le> c \<and> c \<le> 57)"

text \<open>\<open>p in s\<close> for two strings: \<open>p\<close> occurs in \<open>s\<close> as a contiguous substring.\<close>

fun str_contains :: "pystr \<Rightarrow> pystr \<Rightarrow> bool" where
  "str_contains p [] = (p = [])"
| "str_contains p (c # cs) = (take (length p) (c # cs) = p \<or> str_contains p cs)"

subsection \<open>Exceptions\<close>

text \<open>
  An exception is known by the classes it is an instance of (an \<open>except C\<close> clause
  catches it when \<open>C\<close> is among them) and, for \<open>e.response.status_code\<close>, by the
  status of the response it carries, if it carries one.
\<close>

datatype exc_class =
    Timeout
  | ConnectionError
  | HTTPError
  | RequestException
  | KeyError
  | IndexError
  | TypeError
  | AttributeError
  | OtherException

record exc =
  isa :: "exc_class list"
  response_status :: "int option"

definition builtin_exc :: "exc_class \<Rightarrow> exc" where
  "builtin_exc c = \<lparr>isa = [c], response_status = None\<rparr>"

text \<open>\<open>data[0]\<close>.\<close>

fun getitem0 :: "pyval \<Rightarrow> exc + pyval" where
  "getitem0 (PList xs) = (case xs of [] \<Rightarrow> Inl (builtin_exc IndexError) | x # _ \<Rightarrow> Inr x)"
| "getitem0 (PStr s) = (case s of [] \<Rightarrow> Inl (builtin_exc IndexError) | c # _ \<Rightarrow> Inr (PStr [c]))"
| "getitem0 (PDict kvs) = Inl (builtin_exc KeyError)"
| "getitem0 v = Inl (builtin_exc TypeError)"

text \<open>\<open>container[key]\<close> for a string key: only a dictionary can be indexed by a string.\<close>

fun getitem :: "pyval \<Rightarrow> pystr \<Rightarrow> exc + pyval" where
  "getitem (PDict kvs) k =
     (case map_of kvs k of None \<Rightarrow> Inl (builtin_exc KeyError) | Some v \<Rightarrow> Inr v)"
| "getitem v k = Inl (builtin_exc TypeError)"

text \<open>\<open>container.get(key, default)\<close>: a method of dictionaries only.\<close>

fun py_get :: "pyval \<Rightarrow> pystr \<Rightarrow> pyval \<Rightarrow> exc + pyval" where
  "py_get (PDict kvs) k d = Inr (case map_of kvs k of None \<Rightarrow> d | Some v \<Rightarrow> v)"
| "py_get v k d = Inl (builtin_exc AttributeError)"

text \<open>
  \<open>key in container\<close> for a string key: a key of the dictionary, an element of the
  list, a substring of the string; any other value is not iterable.
\<close>

fun py_in :: "pystr \<Rightarrow> pyval \<Rightarrow> exc + bool" where
  "py_in k (PDict kvs) = Inr (map_of kvs k \<noteq> None)"
| "py_in k (PList xs) = Inr (PStr k \<in> set xs)"
| "py_in k (PStr s) = Inr (str_contains k s)"
| "py_in k v = Inl (builtin_exc TypeError)"

section \<open>The HTTP client\<close>

text \<open>
  \<open>requests.get\<close> is the program's only contact with the outside. A call either raises
  or returns a response, of which the program reads the status code and the decoded body
  (\<open>response.json()\<close>, which may raise too). The upstream service is a function of the
  request and of the requests sent before it; a world is that function and the log of
  requests sent so far.
\<close>

record response =
  status_code :: int
  json :: "exc + pyval"

datatype http_outcome = Raises exc | Returns response

record request =
  url :: pystr
  params :: "(pystr \<times> pyval) list"
  timeout :: int

record world =
  upstream :: "request list \<Rightarrow> request \<Rightarrow> http_outcome"
  sent :: "request list"

definition requests_get :: "request \<Rightarrow> world \<Rightarrow> http_outcome \<times> world" where
  "requests_get req w = (upstream w (sent w) req, w\<lparr>sent := sent w @ [req]\<rparr>)"

text \<open>
  Modelled from the spec: \<open>response.raise_for_status()\<close> of the \<open>requests\<close>
  library, which is not among the sources. It raises an \<open>HTTPError\<close> carrying the
  response when the status is at least 400, as
  \<open>MockResponse.raise_for_status\<close> of \<open>test_geoloc_util.py\<close> does.
\<close>

definition raise_for_status :: "response \<Rightarrow> exc option" where
  "raise_for_status r =
     (if status_code r \<ge> 400
      then Some \<lparr>isa = [HTTPError, RequestException], response_status = Some (status_code r)\<rparr>
      else None)"

section \<open>geoloc\_util.py\<close>

text \<open>Calls of \<open>logger\<close> write to the log only and are left out.\<close>

definition BASE_URL :: pystr where
  "BASE_URL = lit ''http://api.openweathermap.org/geo/1.0''"

text \<open>The dictionary \<open>{'error': msg}\<close>.\<close>

definition error_dict :: "pystr \<Rightarrow> pyval" where
  "error_dict msg = PDict [(lit ''error'', PStr msg)]"

text \<open>The body of the \<open>try\<close> statement of \<open>fetch_api_data\<close>, from the outcome of \<open>requests.get\<close> on.\<close>

definition fetch_api_data_try :: "pystr \<Rightarrow> http_outcome \<Rightarrow> exc + pyval" where
  "fetch_api_data_try endpoint outcome =
     (case outcome of
        Raises e \<Rightarrow> Inl e
      | Returns resp \<Rightarrow>
         (case raise_for_status resp of
            Some e \<Rightarrow> Inl e
          | None \<Rightarrow>
             (case json resp of
                Inl e \<Rightarrow> Inl e
              | Inr data \<Rightarrow>
                  if \<not> truthy data then Inr (error_dict (lit ''No data returned from API''))
                  else if endpoint = lit ''direct'' then getitem0 data
                  else Inr data)))"

text \<open>
  The \<open>except\<close> clauses of \<open>fetch_api_data\<close>, in the order of the source; an exception
  that no clause catches propagates.
\<close>

definition fetch_api_data_except :: "exc \<Rightarrow> exc + pyval" where
  "fetch_api_data_except e =
     (if Timeout \<in> set (isa e) then Inr (error_dict (lit ''API request timed out''))
      else if ConnectionError \<in> set (isa e) then Inr (error_dict (lit ''API connection failed''))
      else if HTTPError \<in> set (isa e) then
        (case response_status e of
           None \<Rightarrow> Inl (builtin_exc AttributeError)
         | Some code \<Rightarrow>
             if code = 401 then Inr (error_dict (lit ''Invalid API key''))
             else if code = 429 then Inr (error_dict (lit ''API rate limit exceeded''))
             else Inr (error_dict (lit ''API error: '' @ str_int code)))
      else if RequestException \<in> set (isa e) then Inr (error_dict (lit ''Unexpected API error''))
      else Inl e)"

text \<open>The arguments of \<open>requests.get(url, params=params, timeout=10)\<close>.\<close>

definition api_request :: "pystr \<Rightarrow> (pystr \<times> pyval) list \<Rightarrow> request" where
  "api_request endpoint ps = \<lparr>url = BASE_URL @ lit ''/'' @ endpoint, params = ps, timeout = 10\<rparr>"

definition fetch_api_data ::
  "pystr \<Rightarrow> (pystr \<times> pyval) list \<Rightarrow> world \<Rightarrow> (exc + pyval) \<times> world" where
  "fetch_api_data endpoint ps w =
     (let (outcome, w') = requests_get (api_request endpoint ps) w
      in (case fetch_api_data_try endpoint outcome of
            Inl e \<Rightarrow> fetch_api_data_except e
          | Inr v \<Rightarrow> Inr v,
          w'))"

text \<open>\<open>API_KEY\<close> is read from the environment when the module is loaded; it is a parameter.\<close>

definition fetch_location_by_city_state ::
  "pystr \<Rightarrow> pystr \<Rightarrow> world \<Rightarrow> (exc + pyval) \<times> world" where
  "fetch_location_by_city_state API_KEY query w =
     fetch_api_data (lit ''direct'')
       [(lit ''q'', PStr (query @ lit '',US'')), (lit ''limit'', PInt 1),
        (lit ''appid'', PStr API_KEY)] w"

definition fetch_location_by_zip ::
  "pystr \<Rightarrow> pystr \<Rightarrow> world \<Rightarrow> (exc + pyval) \<times> world" where
  "fetch_location_by_zip API_KEY zip_code w =
     fetch_api_data (lit ''zip'')
       [(lit ''zip'', PStr (zip_code @ lit '',US'')), (lit ''appid'', PStr API_KEY)] w"

text \<open>The dictionary display that \<open>get_location_info\<close> returns for a payload.\<close>

definition location_record :: "pyval \<Rightarrow> exc + pyval" where
  "location_record data =
     (case py_get data (lit ''name'') (PStr []) of Inl e \<Rightarrow> Inl e | Inr name \<Rightarrow>
     (case py_get data (lit ''lat'') (PStr []) of Inl e \<Rightarrow> Inl e | Inr lat \<Rightarrow>
     (case py_get data (lit ''lon'') (PStr []) of Inl e \<Rightarrow> Inl e | Inr lon \<Rightarrow>
     (case py_get data (lit ''state'') (PStr []) of Inl e \<Rightarrow> Inl e | Inr state \<Rightarrow>
     (case py_get data (lit ''country'') (PStr (lit ''US'')) of Inl e \<Rightarrow> Inl e | Inr country \<Rightarrow>
        Inr (PDict [(lit ''name'', name), (lit ''lat'', lat), (lit ''lon'', lon),
                    (lit ''state'', state), (lit ''country'', country)]))))))"

definition get_location_info ::
  "pystr \<Rightarrow> pystr \<Rightarrow> world \<Rightarrow> (exc + pyval) \<times> world" where
  "get_location_info API_KEY location0 w =
     (let location = strip location0;
          (fetched, w') =
             (if str_isdigit location \<and> length location = 5
              then fetch_location_by_zip API_KEY location w
              else fetch_location_by_city_state API_KEY location w)
      in (case fetched of
            Inl e \<Rightarrow> Inl e
          | Inr data \<Rightarrow>
             (case py_in (lit ''error'') data of
                Inl e \<Rightarrow> Inl e
              | Inr has_error \<Rightarrow> if has_error then Inr data else location_record data),
          w'))"


definition format_location :: "(pyval \<Rightarrow> pystr) \<Rightarrow> pyval \<Rightarrow> exc + pyval" where
  "format_location repr result =
     (case py_in (lit ''error'') result of
        Inl e \<Rightarrow> Inl e
      | Inr has_error \<Rightarrow>
          if has_error then getitem result (lit ''error'')
          else
           (case py_get result (lit ''state'') PNone of Inl e \<Rightarrow> Inl e | Inr st \<Rightarrow>
           (case (if truthy st
                  then (case getitem result (lit ''state'') of
                          Inl e \<Rightarrow> Inl e
                        | Inr v \<Rightarrow> Inr (lit '', '' @ py_str repr v))
                  else Inr []) of Inl e \<Rightarrow> Inl e | Inr state \<Rightarrow>
           (case getitem result (lit ''name'') of Inl e \<Rightarrow> Inl e | Inr name \<Rightarrow>
           (case getitem result (lit ''lat'') of Inl e \<Rightarrow> Inl e | Inr lat \<Rightarrow>
           (case getitem result (lit ''lon'') of Inl e \<Rightarrow> Inl e | Inr lon \<Rightarrow>
              Inr (PStr (lit ''Location: '' @ py_str repr name @ state @ lit '' - Lat: ''
                         @ py_str repr lat @ lit '', Lon: '' @ py_str repr lon))))))))"



section \<open>Notions of the specification\<close>

text \<open>
  The request that \<open>get_location_info\<close> sends for an input: the test of its
  \<open>if\<close> statement with the parameters of \<open>fetch_location_by_zip\<close> and of
  \<open>fetch_location_by_city_state\<close>.
\<close>

definition upstream_query :: "pystr \<Rightarrow> pystr \<Rightarrow> request" where
  "upstream_query API_KEY location0 =
     (let location = strip location0
      in if str_isdigit location \<and> length location = 5
         then api_request (lit ''zip'')
                [(lit ''zip'', PStr (location @ lit '',US'')), (lit ''appid'', PStr API_KEY)]
         else api_request (lit ''direct'')
                [(lit ''q'', PStr (location @ lit '',US'')), (lit ''limit'', PInt 1),
                 (lit ''appid'', PStr API_KEY)])"

text \<open>A field of a payload, or the default when the payload has no such field.\<close>

definition field_or :: "(pystr \<times> pyval) list \<Rightarrow> pystr \<Rightarrow> pyval \<Rightarrow> pyval" where
  "field_or kvs k d = (case map_of kvs k of None \<Rightarrow> d | Some v \<Rightarrow> v)"







section \<open>Sample worlds\<close>

text \<open>An upstream that gives the same outcome to every request; nothing sent yet.\<close>

definition world_answering :: "http_outcome \<Rightarrow> world" where
  "world_answering outcome = \<lparr>upstream = (\<lambda>history req. outcome), sent = []\<rparr>"

text \<open>The parameters of the calls in \<open>test_geoloc_util.py\<close>.\<close>

definition test_params :: "(pystr \<times> pyval) list" where
  "test_params =
     [(lit ''q'', PStr (lit ''Madison, WI,US'')), (lit ''limit'', PInt 1),
      (lit ''appid'', PStr (lit ''test''))]"

definition madison :: pyval where
  "madison =
     PDict [(lit ''name'', PStr (lit ''Madison'')), (lit ''lat'', PFloat True (lit ''43.07'')),
            (lit ''lon'', PFloat True (lit ''-89.4'')), (lit ''state'', PStr (lit ''WI'')),
            (lit ''country'', PStr (lit ''US''))]"

text \<open>
  The upstream of the end-to-end scenario of the specification: the zip lookup finds
  Madison, the city lookup finds nothing.
\<close>

definition scenario_world :: world where
  "scenario_world =
     \<lparr>upstream = (\<lambda>history req.
         if url req = BASE_URL @ lit ''/direct''
         then Returns \<lparr>status_code = 200, json = Inr (PList [])\<rparr>
         else Returns \<lparr>status_code = 200, json = Inr madison\<rparr>),
      sent = []\<rparr>"


text \<open>A successful payload that has a field named \<open>error\<close>.\<close>

definition payload_with_error :: pyval where
  "payload_with_error =
     PDict [(lit ''error'', PStr (lit ''boom'')), (lit ''name'', PStr (lit ''Madison''))]"

section \<open>Properties\<close>

declare str_nat.simps [simp del]

lemma lit_eq_iff: "(lit a = lit b) = (a = b)"
  by (auto simp: lit_def inj_on_def dest!: map_inj_on [where f = "of_char :: char \<Rightarrow> nat"])

lemma lit_append: "lit (a @ b) = lit a @ lit b"
  by (simp add: lit_def)

lemma lit_Nil_iff: "(lit a = []) = (a = [])"
  by (simp add: lit_def)

subsection \<open>One call of the API\<close>

lemma fetch_api_data_fst:
  "fst (fetch_api_data endpoint ps w) =
     (case fetch_api_data_try endpoint (upstream w (sent w) (api_request endpoint ps)) of
        Inl e \<Rightarrow> fetch_api_data_except e
      | Inr v \<Rightarrow> Inr v)"
  by (simp add: fetch_api_data_def requests_get_def)

lemma fetch_api_data_snd:
  "snd (fetch_api_data endpoint ps w) = w\<lparr>sent := sent w @ [api_request endpoint ps]\<rparr>"
  by (simp add: fetch_api_data_def requests_get_def)

lemma superscript_two_digit: "isdigit 178"
  by (simp add: isdigit_def in_ranges_def digit_ranges_def)

lemma superscript_two_not_space: "\<not> isspace 178"
  by (simp add: isspace_def in_ranges_def whitespace_ranges_def)

text \<open>
  Claim C1 (evaluation at the failing input). The claim sends to the zip endpoint exactly
  the inputs that are five decimal digits after trimming. The test of
  \<open>get_location_info\<close> is \<open>str.isdigit\<close>, which also holds of digits that are not
  decimal, such as SUPERSCRIPT TWO (U+00B2, code point 178): the input made of five of
  them is not trimmed, has no decimal digit, and its request goes to the zip endpoint.
\<close>

theorem superscript_digits_sent_to_zip:
  "strip [178, 178, 178, 178, 178] = [178, 178, 178, 178, 178]
   \<and> list_all decimal_digit [178, 178, 178, 178, 178] = False
   \<and> sent (snd (get_location_info API_KEY [178, 178, 178, 178, 178] w)) =
       sent w @ [\<lparr>url = lit ''http://api.openweathermap.org/geo/1.0/zip'',
                  params = [(lit ''zip'', PStr ([178, 178, 178, 178, 178] @ lit '',US'')),
                            (lit ''appid'', PStr API_KEY)],
                  timeout = 10\<rparr>]"
proof -
  have trimmed: "strip [178, 178, 178, 178, 178] = [178, 178, 178, 178, 178]"
    by (simp add: strip_def superscript_two_not_space)
  have zip: "str_isdigit [178, 178, 178, 178, 178]"
    by (simp add: str_isdigit_def superscript_two_digit)
  have "snd (get_location_info API_KEY [178, 178, 178, 178, 178] w) =
          snd (fetch_location_by_zip API_KEY [178, 178, 178, 178, 178] w)"
    by (simp add: get_location_info_def trimmed zip split: prod.splits)
  then have "sent (snd (get_location_info API_KEY [178, 178, 178, 178, 178] w)) =
      sent w @ [api_request (lit ''zip'')
                  [(lit ''zip'', PStr ([178, 178, 178, 178, 178] @ lit '',US'')),
                   (lit ''appid'', PStr API_KEY)]]"
    by (simp add: fetch_location_by_zip_def fetch_api_data_snd)
  moreover have "BASE_URL @ lit ''/'' @ lit ''zip'' = lit ''http://api.openweathermap.org/geo/1.0/zip''"
    by (simp add: BASE_URL_def lit_def)
  ultimately show ?thesis
    by (simp add: trimmed api_request_def decimal_digit_def)
qed





text \<open>
  Claim C4. When the status is below 400 and the decoded body is not empty,
  \<open>fetch_api_data\<close> returns the first element of the list for the endpoint
  \<open>direct\<close>, and the body itself for the endpoint \<open>zip\<close>.
\<close>

theorem nonempty_body_payload:
  assumes "upstream w (sent w) (api_request endpoint ps) = Returns resp"
      and "status_code resp < 400"
      and "json resp = Inr data"
      and "truthy data"
  shows "(endpoint = lit ''direct'' \<and> data = PList (x # rest) \<longrightarrow>
            fst (fetch_api_data endpoint ps w) = Inr x)
       \<and> (endpoint = lit ''zip'' \<longrightarrow> fst (fetch_api_data endpoint ps w) = Inr data)"
  using assms
  by (auto simp: fetch_api_data_fst fetch_api_data_try_def raise_for_status_def lit_eq_iff)

theorem nonempty_body_payload_witness:
  "truthy (PList [madison, PNone]) \<and> truthy madison
   \<and> fst (fetch_api_data (lit ''direct'') test_params
          (world_answering (Returns \<lparr>status_code = 200, json = Inr (PList [madison, PNone])\<rparr>))) =
     Inr madison
   \<and> fst (fetch_api_data (lit ''zip'') test_params
          (world_answering (Returns \<lparr>status_code = 200, json = Inr madison\<rparr>))) =
     Inr madison"
  using nonempty_body_payload
    [of "world_answering (Returns \<lparr>status_code = 200, json = Inr (PList [madison, PNone])\<rparr>)"
        "lit ''direct''" test_params
        "\<lparr>status_code = 200, json = Inr (PList [madison, PNone])\<rparr>" "PList [madison, PNone]"
        madison "[PNone]"]
    nonempty_body_payload
    [of "world_answering (Returns \<lparr>status_code = 200, json = Inr madison\<rparr>)"
        "lit ''zip''" test_params "\<lparr>status_code = 200, json = Inr madison\<rparr>" madison]
  by (simp add: world_answering_def madison_def)



subsection \<open>One lookup\<close>

lemma base_url_zip: "BASE_URL @ lit ''/'' @ lit ''zip'' = lit ''http://api.openweathermap.org/geo/1.0/zip''"
  by (simp add: BASE_URL_def lit_def)
lemma base_url_direct: "BASE_URL @ lit ''/'' @ lit ''direct'' = lit ''http://api.openweathermap.org/geo/1.0/direct''"
  by (simp add: BASE_URL_def lit_def)

lemma get_location_info_snd:
  "snd (get_location_info API_KEY location w) = w\<lparr>sent := sent w @ [upstream_query API_KEY location]\<rparr>"
  by (simp add: get_location_info_def upstream_query_def Let_def fetch_location_by_zip_def
      fetch_location_by_city_state_def fetch_api_data_snd case_prod_beta)

lemma get_location_info_fst:
  "fst (get_location_info API_KEY location w) =
     (case (case fetch_api_data_try (if str_isdigit (strip location) \<and> length (strip location) = 5 then lit ''zip'' else lit ''direct'')
                  (upstream w (sent w) (upstream_query API_KEY location)) of
              Inl e \<Rightarrow> fetch_api_data_except e
            | Inr v \<Rightarrow> Inr v) of
        Inl e \<Rightarrow> Inl e
      | Inr data \<Rightarrow>
          (case py_in (lit ''error'') data of
             Inl e \<Rightarrow> Inl e
           | Inr has_error \<Rightarrow> if has_error then Inr data else location_record data))"
  by (simp add: get_location_info_def upstream_query_def Let_def fetch_location_by_zip_def
      fetch_location_by_city_state_def fetch_api_data_fst case_prod_beta)

lemma location_record_PDict:
  "location_record (PDict kvs) =
     Inr (PDict [(lit ''name'', field_or kvs (lit ''name'') (PStr [])),
                 (lit ''lat'', field_or kvs (lit ''lat'') (PStr [])),
                 (lit ''lon'', field_or kvs (lit ''lon'') (PStr [])),
                 (lit ''state'', field_or kvs (lit ''state'') (PStr [])),
                 (lit ''country'', field_or kvs (lit ''country'') (PStr (lit ''US'')))])"
  by (simp add: location_record_def field_or_def)

lemma strip_zip_sample: "strip (lit '' 53703 '') = lit ''53703''"
  by (simp add: strip_def lit_def isspace_def in_ranges_def whitespace_ranges_def)

lemma strip_53703: "strip (lit ''53703'') = lit ''53703''"
  by (simp add: strip_def lit_def isspace_def in_ranges_def whitespace_ranges_def)

lemma isdigit_53703: "str_isdigit (lit ''53703'')"
  by (simp add: str_isdigit_def lit_def isdigit_def in_ranges_def digit_ranges_def)

lemma length_53703: "length (lit ''53703'') = 5"
  by (simp add: lit_def)

lemma strip_city_sample: "strip (lit ''InvalidCity, XX'') = lit ''InvalidCity, XX''"
  by (simp add: strip_def lit_def isspace_def in_ranges_def whitespace_ranges_def)

lemma length_city_sample: "length (lit ''InvalidCity, XX'') = 15"
  by (simp add: lit_def)

lemma isdigit_ascii: "c < 128 \<Longrightarrow> isdigit c = decimal_digit c"
  by (auto simp: isdigit_def in_ranges_def digit_ranges_def decimal_digit_def)

lemma list_all_isdigit_ascii:
  "list_all (\<lambda>c. c < 128) s \<Longrightarrow> list_all isdigit s = list_all decimal_digit s"
  by (induction s) (simp_all add: isdigit_ascii)

text \<open>
  Dispatch of ASCII inputs: for an input whose trimmed form is ASCII, the request goes to
  the zip endpoint if and only if the trimmed form is five decimal digits, and to the
  direct endpoint otherwise.
\<close>

theorem ascii_inputs_dispatch:
  assumes "list_all (\<lambda>c. c < 128) (strip location)"
  shows "map url (sent (snd (get_location_info API_KEY location w))) =
           map url (sent w) @
             [if length (strip location) = 5 \<and> list_all decimal_digit (strip location)
              then lit ''http://api.openweathermap.org/geo/1.0/zip''
              else lit ''http://api.openweathermap.org/geo/1.0/direct'']"
proof -
  have "(str_isdigit (strip location) \<and> length (strip location) = 5) =
        (length (strip location) = 5 \<and> list_all decimal_digit (strip location))"
    using list_all_isdigit_ascii [OF assms] by (auto simp: str_isdigit_def)
  then show ?thesis
    by (simp add: get_location_info_snd upstream_query_def Let_def api_request_def
        base_url_zip base_url_direct)
qed

theorem ascii_inputs_dispatch_witness:
  "list_all (\<lambda>c. c < 128) (strip (lit '' 53703 ''))
   \<and> map url (sent (snd (get_location_info (lit ''test'') (lit '' 53703 '') scenario_world))) =
       [lit ''http://api.openweathermap.org/geo/1.0/zip'']
   \<and> map url (sent (snd (get_location_info (lit ''test'') (lit ''537031'') scenario_world))) =
       [lit ''http://api.openweathermap.org/geo/1.0/direct'']"
proof -
  have a: "strip (lit '' 53703 '') = lit ''53703''"
    by (simp add: strip_zip_sample)
  have b: "strip (lit ''537031'') = lit ''537031''"
    by (simp add: strip_def lit_def isspace_def in_ranges_def whitespace_ranges_def)
  have c: "list_all (\<lambda>c. c < 128) (lit ''53703'')" "list_all (\<lambda>c. c < 128) (lit ''537031'')"
    "list_all decimal_digit (lit ''53703'')"
    by (simp_all add: lit_def decimal_digit_def)
  from ascii_inputs_dispatch [of "lit '' 53703 ''" "lit ''test''" scenario_world]
       ascii_inputs_dispatch [of "lit ''537031''" "lit ''test''" scenario_world]
  show ?thesis
    by (simp add: a b c scenario_world_def) (simp add: lit_def)
qed


text \<open>
  Claim C5, as stated, at a successful payload that has a field named \<open>error\<close>: the
  upstream call returns the payload, and \<open>get_location_info\<close> returns it as it is, not
  the record of its fields.
\<close>

theorem normalization_counterexample:
  "fst (fetch_location_by_zip (lit ''test'') (lit ''53703'')
          (world_answering (Returns \<lparr>status_code = 200, json = Inr payload_with_error\<rparr>))) =
     Inr payload_with_error
   \<and> fst (get_location_info (lit ''test'') (lit ''53703'')
          (world_answering (Returns \<lparr>status_code = 200, json = Inr payload_with_error\<rparr>))) =
     Inr payload_with_error
   \<and> fst (get_location_info (lit ''test'') (lit ''53703'')
          (world_answering (Returns \<lparr>status_code = 200, json = Inr payload_with_error\<rparr>))) \<noteq>
     Inr (PDict [(lit ''name'', PStr (lit ''Madison'')), (lit ''lat'', PStr []),
                 (lit ''lon'', PStr []), (lit ''state'', PStr []),
                 (lit ''country'', PStr (lit ''US''))])"
  by (simp add: get_location_info_fst fetch_location_by_zip_def fetch_api_data_fst
      strip_53703 isdigit_53703 length_53703 world_answering_def fetch_api_data_try_def
      raise_for_status_def payload_with_error_def lit_eq_iff)

text \<open>
  Claim C5, amended. \<open>get_location_info\<close> returns an error record of the upstream call
  unchanged. For a successful payload that is an object with no field named \<open>error\<close>
  it returns the record of the fields \<open>name\<close>, \<open>lat\<close>, \<open>lon\<close>, \<open>state\<close> (each the
  payload's field, or the empty string) and \<open>country\<close> (the payload's field, or
  \<open>US\<close>); the values are passed through as they are.
\<close>

theorem normalization:
  assumes "fetched =
             (if str_isdigit (strip location) \<and> length (strip location) = 5
              then fetch_location_by_zip API_KEY (strip location) w
              else fetch_location_by_city_state API_KEY (strip location) w)"
  shows "(fst fetched = Inr (error_dict msg) \<longrightarrow>
            fst (get_location_info API_KEY location w) = Inr (error_dict msg))
       \<and> (fst fetched = Inr (PDict kvs) \<and> map_of kvs (lit ''error'') = None \<longrightarrow>
            fst (get_location_info API_KEY location w) =
              Inr (PDict [(lit ''name'', field_or kvs (lit ''name'') (PStr [])),
                          (lit ''lat'', field_or kvs (lit ''lat'') (PStr [])),
                          (lit ''lon'', field_or kvs (lit ''lon'') (PStr [])),
                          (lit ''state'', field_or kvs (lit ''state'') (PStr [])),
                          (lit ''country'', field_or kvs (lit ''country'') (PStr (lit ''US'')))]))"
proof -
  have unfold: "fst (get_location_info API_KEY location w) =
     (case fst fetched of
        Inl e \<Rightarrow> Inl e
      | Inr data \<Rightarrow>
          (case py_in (lit ''error'') data of
             Inl e \<Rightarrow> Inl e
           | Inr has_error \<Rightarrow> if has_error then Inr data else location_record data))"
    by (simp add: assms get_location_info_def Let_def case_prod_beta)
  show ?thesis
    by (simp add: unfold error_dict_def location_record_PDict)
qed


theorem normalization_witness:
  "fst (get_location_info (lit ''test'') (lit ''InvalidCity, XX'')
          (world_answering (Returns \<lparr>status_code = 200, json = Inr (PList [])\<rparr>))) =
     Inr (error_dict (lit ''No data returned from API''))
   \<and> fst (get_location_info (lit ''test'') (lit ''53703'')
          (world_answering (Returns \<lparr>status_code = 200,
             json = Inr (PDict [(lit ''name'', PStr (lit ''Madison'')), (lit ''lat'', PFloat True (lit ''43.07''))])\<rparr>))) =
     Inr (PDict [(lit ''name'', PStr (lit ''Madison'')), (lit ''lat'', PFloat True (lit ''43.07'')),
                 (lit ''lon'', PStr []), (lit ''state'', PStr []),
                 (lit ''country'', PStr (lit ''US''))])"
  using normalization
    [of "fetch_location_by_city_state (lit ''test'') (lit ''InvalidCity, XX'')
           (world_answering (Returns \<lparr>status_code = 200, json = Inr (PList [])\<rparr>))"
        "lit ''InvalidCity, XX''" "lit ''test''"
        "world_answering (Returns \<lparr>status_code = 200, json = Inr (PList [])\<rparr>)"
        "lit ''No data returned from API''" "[]"]
    normalization
    [of "fetch_location_by_zip (lit ''test'') (lit ''53703'')
           (world_answering (Returns \<lparr>status_code = 200,
             json = Inr (PDict [(lit ''name'', PStr (lit ''Madison'')), (lit ''lat'', PFloat True (lit ''43.07''))])\<rparr>))"
        "lit ''53703''" "lit ''test''"
        "world_answering (Returns \<lparr>status_code = 200,
             json = Inr (PDict [(lit ''name'', PStr (lit ''Madison'')), (lit ''lat'', PFloat True (lit ''43.07''))])\<rparr>)"
        "[]" "[(lit ''name'', PStr (lit ''Madison'')), (lit ''lat'', PFloat True (lit ''43.07''))]"]
  by (simp add: strip_53703 isdigit_53703 length_53703 strip_city_sample length_city_sample
      fetch_location_by_zip_def fetch_location_by_city_state_def fetch_api_data_fst
      world_answering_def fetch_api_data_try_def raise_for_status_def lit_eq_iff field_or_def)

text \<open>
  Claim C6. For a record with the key \<open>error\<close>, \<open>format_location\<close> returns the value
  under that key as it is. For a location record it returns \<open>Location: \<close>, the name,
  a comma, a space and the state when the state is true in a test (for a string: when it
  is not empty), \<open> - Lat: \<close>, the latitude, \<open>, Lon: \<close> and the longitude, each value
  rendered by \<open>str\<close>.
\<close>

theorem format_location_lines:
  "(map_of kvs (lit ''error'') = Some v \<longrightarrow> format_location repr (PDict kvs) = Inr v)
   \<and> (map_of kvs (lit ''error'') = None \<and> map_of kvs (lit ''name'') = Some name
        \<and> map_of kvs (lit ''state'') = Some state \<and> map_of kvs (lit ''lat'') = Some lat
        \<and> map_of kvs (lit ''lon'') = Some lon \<longrightarrow>
      format_location repr (PDict kvs) =
        Inr (PStr (lit ''Location: '' @ py_str repr name
                   @ (if truthy state then lit '', '' @ py_str repr state else [])
                   @ lit '' - Lat: '' @ py_str repr lat @ lit '', Lon: '' @ py_str repr lon)))"
  by (simp add: format_location_def)

theorem format_location_lines_witness:
  "format_location (\<lambda>v. []) (error_dict (lit ''No data returned from API'')) =
     Inr (PStr (lit ''No data returned from API''))
   \<and> format_location (\<lambda>v. []) madison =
     Inr (PStr (lit ''Location: Madison, WI - Lat: 43.07, Lon: -89.4''))
   \<and> format_location (\<lambda>v. [])
       (PDict [(lit ''name'', PStr (lit ''Madison'')), (lit ''lat'', PInt 43),
               (lit ''lon'', PInt (- 89)), (lit ''state'', PStr []),
               (lit ''country'', PStr (lit ''US''))]) =
     Inr (PStr (lit ''Location: Madison - Lat: 43, Lon: -89''))"
  using format_location_lines
    [of "[(lit ''error'', PStr (lit ''No data returned from API''))]"
        "PStr (lit ''No data returned from API'')" "\<lambda>v. []"]
    format_location_lines
    [of "[(lit ''name'', PStr (lit ''Madison'')), (lit ''lat'', PFloat True (lit ''43.07'')),
          (lit ''lon'', PFloat True (lit ''-89.4'')), (lit ''state'', PStr (lit ''WI'')),
          (lit ''country'', PStr (lit ''US''))]" _ "\<lambda>v. []"
        "PStr (lit ''Madison'')" "PStr (lit ''WI'')" "PFloat True (lit ''43.07'')"
        "PFloat True (lit ''-89.4'')"]
    format_location_lines
    [of "[(lit ''name'', PStr (lit ''Madison'')), (lit ''lat'', PInt 43),
          (lit ''lon'', PInt (- 89)), (lit ''state'', PStr []),
          (lit ''country'', PStr (lit ''US''))]" _ "\<lambda>v. []"
        "PStr (lit ''Madison'')" "PStr []" "PInt 43" "PInt (- 89)"]
  by (simp add: error_dict_def madison_def lit_eq_iff lit_Nil_iff str_int_def str_nat.simps
      flip: lit_append) (simp add: lit_def)


subsection \<open>A field named error in a payload\<close>






subsection \<open>A list of inputs\<close>


























end
